theory Spec2Isabelle
  imports Main
begin

section \<open>The host: values, exceptions, property reads\<close>

text \<open>
  The two modules \<^verbatim>\<open>src/lib/logger.ts\<close> and \<^verbatim>\<open>src/lib/env.ts\<close> are embedded as
  functions on an explicit world state. Everything the modules call but do not define
  (the date formatter, chalk's rendering, the members of \<^verbatim>\<open>Object.prototype\<close>) is a
  field of a \<open>platform\<close> record: the theorems hold for every platform, and only
  the closed examples fix one.

  An exception of the host is a value: a call returns \<open>Inl e\<close> when it throws.
\<close>

datatype exn = TypeError | RangeError

text \<open>
  The parameter \<^verbatim>\<open>message: any\<close>. A string is kept as it is; a symbol is kept by its
  description; every other value is represented by what converting it to text yields
  when chalk joins its arguments (a text, or the exception thrown by the conversion).
\<close>

datatype message = Text string | Symbol string | Other "exn + string"

fun toText :: "message \<Rightarrow> exn + string" where
  "toText (Text s) = Inr s"
| "toText (Symbol d) = Inl TypeError"
| "toText (Other r) = r"

text \<open>
  A property read \<^verbatim>\<open>obj[key]\<close> on an ordinary object: the object's own entry when it
  has one, otherwise the member of that name that the object inherits from
  \<^verbatim>\<open>Object.prototype\<close>, otherwise \<^verbatim>\<open>undefined\<close>. Both \<^verbatim>\<open>levels\<close> and
  \<^verbatim>\<open>process.env\<close> have \<^verbatim>\<open>Object.prototype\<close> as their prototype.
\<close>

definition objectPrototype :: "string list" where
  "objectPrototype =
     [''constructor'', ''__defineGetter__'', ''__defineSetter__'', ''hasOwnProperty'',
      ''__lookupGetter__'', ''__lookupSetter__'', ''isPrototypeOf'', ''propertyIsEnumerable'',
      ''toString'', ''valueOf'', ''__proto__'', ''toLocaleString'']"

datatype 'a property = Own 'a | Inherited string | Undefined

definition getProperty :: "(string \<rightharpoonup> 'a) \<Rightarrow> string \<Rightarrow> 'a property" where
  "getProperty obj key =
     (case obj key of
        Some v \<Rightarrow> Own v
      | None \<Rightarrow> if key \<in> set objectPrototype then Inherited key else Undefined)"

text \<open>
  \<^verbatim>\<open>String.prototype.toUpperCase\<close> on the letters a to z; other characters are kept
  (the five level names consist of these letters only).
\<close>

definition toUpperChar :: "char \<Rightarrow> char" where
  "toUpperChar c =
     (case map_of (zip ''abcdefghijklmnopqrstuvwxyz'' ''ABCDEFGHIJKLMNOPQRSTUVWXYZ'') c of
        Some u \<Rightarrow> u
      | None \<Rightarrow> c)"

definition toUpperCase :: "string \<Rightarrow> string" where
  "toUpperCase s = map toUpperChar s"

text \<open>A point in time, by its calendar fields in the host's time zone.\<close>

record Date =
  year :: nat
  month :: nat
  day :: nat
  hours :: nat
  minutes :: nat
  seconds :: nat

text \<open>
  A chalk instance is the chain of modifiers it was built from:
  \<^verbatim>\<open>chalk.bgRed.white\<close> is \<open>[bgRed, white]\<close>.
\<close>

datatype Modifier = bgRed | white | red | yellow | blue | green

type_synonym ChalkInstance = "Modifier list"

text \<open>
  What the modules take from the host.
  \<^item> \<open>toLocaleDateString d l\<close> and \<open>toLocaleTimeString d l\<close> are the two methods of
    \<^verbatim>\<open>Date\<close>; they throw a \<^verbatim>\<open>RangeError\<close> when \<open>l\<close> is not a well-formed language tag.
  \<^item> \<open>applyStyle c s\<close> is the text chalk returns for the instance \<open>c\<close> and the joined
    text \<open>s\<close>; it depends on the colour support of the terminal.
  \<^item> \<open>callInherited name prefix message\<close> is what results from calling the member
    \<open>name\<close> of \<^verbatim>\<open>Object.prototype\<close> as a plain function on the two arguments and
    printing its result: the printed text, or the exception. It is asked only for the
    members that do not need a receiver (\<open>returnsWithoutReceiver\<close> below).
\<close>

record platform =
  toLocaleDateString :: "Date \<Rightarrow> string \<Rightarrow> exn + string"
  toLocaleTimeString :: "Date \<Rightarrow> string \<Rightarrow> exn + string"
  applyStyle :: "ChalkInstance \<Rightarrow> string \<Rightarrow> string"
  callInherited :: "string \<Rightarrow> string \<Rightarrow> message \<Rightarrow> exn + string"

section \<open>The state of the process\<close>

text \<open>
  \<open>Logger_locale\<close> is the private static field \<^verbatim>\<open>Logger.locale\<close>, \<open>process_env\<close> the
  own entries of \<^verbatim>\<open>process.env\<close> (the host stores strings only), \<open>stdout\<close> the texts
  handed to \<^verbatim>\<open>console.log\<close>, oldest first, one per call.
\<close>

record world =
  Logger_locale :: string
  process_env :: "string \<rightharpoonup> string"
  stdout :: "string list"

text \<open>The state once both modules are loaded: the initialiser of \<^verbatim>\<open>Logger.locale\<close>.\<close>

definition initial :: "(string \<rightharpoonup> string) \<Rightarrow> world" where
  "initial e = \<lparr>Logger_locale = ''en-US'', process_env = e, stdout = []\<rparr>"

type_synonym 'a outcome = "(exn + 'a) \<times> world"

section \<open>logger.ts\<close>

definition levels :: "string \<rightharpoonup> ChalkInstance" where
  "levels =
     [''fatal'' \<mapsto> [bgRed, white],
      ''error'' \<mapsto> [red],
      ''warning'' \<mapsto> [yellow],
      ''debug'' \<mapsto> [blue],
      ''information'' \<mapsto> [green]]"

definition setLocale :: "string \<Rightarrow> world \<Rightarrow> world" where
  "setLocale l w = w\<lparr>Logger_locale := l\<rparr>"

definition console_log :: "string \<Rightarrow> world \<Rightarrow> unit outcome" where
  "console_log line w = (Inr (), w\<lparr>stdout := stdout w @ [line]\<rparr>)"

text \<open>
  The members of \<^verbatim>\<open>Object.prototype\<close> that return when they are called as a plain
  function, that is with \<^verbatim>\<open>undefined\<close> as receiver: \<^verbatim>\<open>toString\<close> answers for the
  missing receiver, \<^verbatim>\<open>isPrototypeOf\<close> answers \<^verbatim>\<open>false\<close> for an argument that is no
  object before it looks at the receiver, and \<^verbatim>\<open>constructor\<close> is the function
  \<^verbatim>\<open>Object\<close>, which wraps its first argument. Each of the other nine throws a
  \<^verbatim>\<open>TypeError\<close>: \<^verbatim>\<open>valueOf\<close>, \<^verbatim>\<open>toLocaleString\<close>, \<^verbatim>\<open>hasOwnProperty\<close>,
  \<^verbatim>\<open>propertyIsEnumerable\<close> and the four \<^verbatim>\<open>__define\<close>/\<^verbatim>\<open>__lookup\<close> members convert
  the receiver to an object first, and the value of \<^verbatim>\<open>__proto__\<close> is an object that
  cannot be called.
\<close>

definition returnsWithoutReceiver :: "string list" where
  "returnsWithoutReceiver = [''toString'', ''isPrototypeOf'', ''constructor'']"

text \<open>
  The call \<^verbatim>\<open>logLevel(prefix, message)\<close>. A chalk instance joins its arguments with a
  space and styles the result; an inherited member is called as a plain function; a call
  of \<^verbatim>\<open>undefined\<close> throws a \<^verbatim>\<open>TypeError\<close>.
\<close>

fun call :: "platform \<Rightarrow> ChalkInstance property \<Rightarrow> string \<Rightarrow> message \<Rightarrow> exn + string" where
  "call P (Own c) prefix message =
     (case toText message of
        Inl e \<Rightarrow> Inl e
      | Inr m \<Rightarrow> Inr (applyStyle P c (prefix @ '' '' @ m)))"
| "call P (Inherited name) prefix message =
     (if name \<in> set returnsWithoutReceiver then callInherited P name prefix message
      else Inl TypeError)"
| "call P Undefined prefix message = Inl TypeError"

text \<open>
  \<^verbatim>\<open>Logger.log(message, level = "information", date = new Date())\<close>; \<open>now\<close> is the
  value \<^verbatim>\<open>new Date()\<close> has at the call. The statements run in the order of the source,
  and nothing catches an exception.
\<close>

definition log :: "platform \<Rightarrow> Date \<Rightarrow> message \<Rightarrow> string option \<Rightarrow> Date option \<Rightarrow> world \<Rightarrow> unit outcome" where
  "log P now message level_arg date_arg w =
     (let level = (case level_arg of None \<Rightarrow> ''information'' | Some l \<Rightarrow> l);
          date = (case date_arg of None \<Rightarrow> now | Some d \<Rightarrow> d);
          logLevel = getProperty levels level
      in case toLocaleDateString P date (Logger_locale w) of
           Inl e \<Rightarrow> (Inl e, w)
         | Inr localeDate \<Rightarrow>
             (case toLocaleTimeString P date (Logger_locale w) of
                Inl e \<Rightarrow> (Inl e, w)
              | Inr time \<Rightarrow>
                  (case call P logLevel
                          (''['' @ toUpperCase level @ ''] ('' @ localeDate @ '' - '' @ time @ ''):'')
                          message of
                     Inl e \<Rightarrow> (Inl e, w)
                   | Inr line \<Rightarrow> console_log line w)))"

definition fatal :: "platform \<Rightarrow> Date \<Rightarrow> message \<Rightarrow> Date option \<Rightarrow> world \<Rightarrow> unit outcome" where
  "fatal P now message date_arg w =
     (let date = (case date_arg of None \<Rightarrow> now | Some d \<Rightarrow> d); level = ''fatal''
      in log P now message (Some level) (Some date) w)"

definition error :: "platform \<Rightarrow> Date \<Rightarrow> message \<Rightarrow> Date option \<Rightarrow> world \<Rightarrow> unit outcome" where
  "error P now message date_arg w =
     (let date = (case date_arg of None \<Rightarrow> now | Some d \<Rightarrow> d); level = ''error''
      in log P now message (Some level) (Some date) w)"

definition warning :: "platform \<Rightarrow> Date \<Rightarrow> message \<Rightarrow> Date option \<Rightarrow> world \<Rightarrow> unit outcome" where
  "warning P now message date_arg w =
     (let date = (case date_arg of None \<Rightarrow> now | Some d \<Rightarrow> d); level = ''warning''
      in log P now message (Some level) (Some date) w)"

definition debug :: "platform \<Rightarrow> Date \<Rightarrow> message \<Rightarrow> Date option \<Rightarrow> world \<Rightarrow> unit outcome" where
  "debug P now message date_arg w =
     (let date = (case date_arg of None \<Rightarrow> now | Some d \<Rightarrow> d); level = ''debug''
      in log P now message (Some level) (Some date) w)"

definition info :: "platform \<Rightarrow> Date \<Rightarrow> message \<Rightarrow> Date option \<Rightarrow> world \<Rightarrow> unit outcome" where
  "info P now message date_arg w =
     (let date = (case date_arg of None \<Rightarrow> now | Some d \<Rightarrow> d); level = ''information''
      in log P now message (Some level) (Some date) w)"

section \<open>env.ts\<close>

text \<open>
  \<^verbatim>\<open>process.env["NODE_ENV"] = nodeEnv ?? process.env["NODE_ENV"] ?? "development"\<close>,
  then the entry is read back and returned. \<^verbatim>\<open>NODE_ENV\<close> is no member of
  \<^verbatim>\<open>Object.prototype\<close>, so both reads see the own entry or \<^verbatim>\<open>undefined\<close>
  (lemma \<open>getProperty_NODE_ENV\<close> below).
\<close>

definition setOrGetNodeEnv :: "string option \<Rightarrow> world \<Rightarrow> string option \<times> world" where
  "setOrGetNodeEnv nodeEnv w =
     (let value = (case nodeEnv of
                     Some v \<Rightarrow> v
                   | None \<Rightarrow> (case process_env w ''NODE_ENV'' of
                                Some v \<Rightarrow> v
                              | None \<Rightarrow> ''development''));
          w' = w\<lparr>process_env := (process_env w)(''NODE_ENV'' \<mapsto> value)\<rparr>
      in (process_env w' ''NODE_ENV'', w'))"

text \<open>\<^verbatim>\<open>!variable\<close>: true of \<^verbatim>\<open>undefined\<close> and of the empty string.\<close>

fun falsy :: "string property \<Rightarrow> bool" where
  "falsy (Own v) = (v = [])"
| "falsy (Inherited name) = False"
| "falsy Undefined = True"

definition quoted :: "string \<Rightarrow> string" where
  "quoted s = CHR 0x27 # s @ [CHR 0x27]"

definition missingKey :: "string \<Rightarrow> string" where
  "missingKey env =
     ''The key '' @ quoted env @ '' does not exist! Check the '' @ quoted ''*.env''
       @ '' path or key name and ensure it has the correct spellng.''"

definition getEnv :: "platform \<Rightarrow> Date \<Rightarrow> string \<Rightarrow> world \<Rightarrow> string property outcome" where
  "getEnv P now env w =
     (let variable = getProperty (process_env w) env in
      if falsy variable then
        (case error P now (Text (missingKey env)) None w of
           (Inl e, w') \<Rightarrow> (Inl e, w')
         | (Inr u, w') \<Rightarrow> (Inr Undefined, w'))
      else (Inr variable, w))"

section \<open>Call sites\<close>

text \<open>
  A caller picks one of the five public methods; \<open>invoke\<close> is that choice. \<open>run\<close>
  performs a sequence of logging calls, each with its own message, date argument and
  clock value, and goes on after a call that threw (the callers are independent).
\<close>

datatype severity = Fatal | Error | Warning | Debug | Info

fun invoke :: "platform \<Rightarrow> Date \<Rightarrow> severity \<Rightarrow> message \<Rightarrow> Date option \<Rightarrow> world \<Rightarrow> unit outcome" where
  "invoke P now Fatal = fatal P now"
| "invoke P now Error = error P now"
| "invoke P now Warning = warning P now"
| "invoke P now Debug = debug P now"
| "invoke P now Info = info P now"

fun run :: "platform \<Rightarrow> (severity \<times> message \<times> Date option \<times> Date) list \<Rightarrow> world \<Rightarrow> world" where
  "run P [] w = w"
| "run P ((m, message, date_arg, now) # calls) w =
     run P calls (snd (invoke P now m message date_arg w))"

section \<open>The line of the specification\<close>

text \<open>
  The specification's words, to compare the code with: the line
  \<^verbatim>\<open>[<LEVEL>] (<localized-date> - <localized-time>): <message>\<close> in the style of the
  severity, where \<^verbatim>\<open><LEVEL>\<close> is the upper-cased severity name and the styles are
  those the source documents (fatal: red background with white text; error: red;
  warning: yellow; debug: blue; information: green).
\<close>

fun spec_LEVEL :: "severity \<Rightarrow> string" where
  "spec_LEVEL Fatal = ''FATAL''"
| "spec_LEVEL Error = ''ERROR''"
| "spec_LEVEL Warning = ''WARNING''"
| "spec_LEVEL Debug = ''DEBUG''"
| "spec_LEVEL Info = ''INFORMATION''"

fun spec_style :: "severity \<Rightarrow> ChalkInstance" where
  "spec_style Fatal = [bgRed, white]"
| "spec_style Error = [red]"
| "spec_style Warning = [yellow]"
| "spec_style Debug = [blue]"
| "spec_style Info = [green]"

definition spec_line :: "platform \<Rightarrow> severity \<Rightarrow> string \<Rightarrow> string \<Rightarrow> string \<Rightarrow> string" where
  "spec_line P m localeDate time text =
     applyStyle P (spec_style m)
       (''['' @ spec_LEVEL m @ ''] ('' @ localeDate @ '' - '' @ time @ ''): '' @ text)"

text \<open>The timestamp of a call: the date argument, or the clock when it is omitted.\<close>

definition timestamp :: "Date option \<Rightarrow> Date \<Rightarrow> Date" where
  "timestamp date_arg now = (case date_arg of None \<Rightarrow> now | Some d \<Rightarrow> d)"

section \<open>A host for the closed examples\<close>

text \<open>
  One platform, for the examples only; the examples evaluate it at the locales
  \<^verbatim>\<open>en-US\<close>, \<^verbatim>\<open>de-DE\<close>, \<^verbatim>\<open>fr-FR\<close> and at the empty tag, and at the three inherited
  members that return. It renders the three locales as the examples in \<^verbatim>\<open>logger.ts\<close> show
  them and falls back to \<^verbatim>\<open>en-US\<close> for any other tag but the empty one, for which
  it throws the \<^verbatim>\<open>RangeError\<close> that the two \<^verbatim>\<open>Date\<close> methods throw for a tag that is
  not well formed. It has no colour support (chalk then returns the joined text
  unchanged). Called without receiver on the two arguments,
  \<^verbatim>\<open>Object.prototype.toString\<close> returns \<^verbatim>\<open>[object Undefined]\<close>, \<^verbatim>\<open>isPrototypeOf\<close>
  returns \<^verbatim>\<open>false\<close>, and \<^verbatim>\<open>constructor\<close> wraps the first argument (printed as
  \<^verbatim>\<open>[String: '...']\<close>).

  \<open>digit\<close> is applied to numbers below ten only.
\<close>

definition digit :: "nat \<Rightarrow> char" where
  "digit n = ''0123456789'' ! n"

fun showNat :: "nat \<Rightarrow> string" where
  "showNat n = (if n < 10 then [digit n] else showNat (n div 10) @ [digit (n mod 10)])"

definition pad2 :: "nat \<Rightarrow> string" where
  "pad2 n = (if n < 10 then CHR ''0'' # showNat n else showNat n)"

definition sampleDate :: "Date \<Rightarrow> string \<Rightarrow> exn + string" where
  "sampleDate d l =
     (if l = '''' then Inl RangeError
      else if l = ''de-DE'' then Inr (showNat (day d) @ ''.'' @ showNat (month d) @ ''.'' @ showNat (year d))
      else if l = ''fr-FR'' then Inr (pad2 (day d) @ ''/'' @ pad2 (month d) @ ''/'' @ showNat (year d))
      else Inr (showNat (month d) @ ''/'' @ showNat (day d) @ ''/'' @ showNat (year d)))"

definition sampleTime :: "Date \<Rightarrow> string \<Rightarrow> exn + string" where
  "sampleTime d l =
     (if l = '''' then Inl RangeError
      else if l = ''de-DE'' \<or> l = ''fr-FR''
        then Inr (pad2 (hours d) @ '':'' @ pad2 (minutes d) @ '':'' @ pad2 (seconds d))
      else Inr (showNat (if hours d mod 12 = 0 then 12 else hours d mod 12) @ '':''
                @ pad2 (minutes d) @ '':'' @ pad2 (seconds d)
                @ (if hours d < 12 then '' AM'' else '' PM'')))"

definition sampleInherited :: "string \<Rightarrow> string \<Rightarrow> message \<Rightarrow> exn + string" where
  "sampleInherited name prefix message =
     (if name = ''toString'' then Inr ''[object Undefined]''
      else if name = ''isPrototypeOf'' then Inr ''false''
      else if name = ''constructor'' then Inr (''[String: '' @ quoted prefix @ '']'')
      else Inl TypeError)"

definition samplePlatform :: platform where
  "samplePlatform =
     \<lparr>toLocaleDateString = sampleDate, toLocaleTimeString = sampleTime,
      applyStyle = (\<lambda>c s. s), callInherited = sampleInherited\<rparr>"

definition newYear :: Date where
  "newYear = \<lparr>year = 2025, month = 1, day = 1, hours = 0, minutes = 0, seconds = 0\<rparr>"

definition evening :: Date where
  "evening = \<lparr>year = 2025, month = 11, day = 16, hours = 17, minutes = 50, seconds = 22\<rparr>"

section \<open>Property reads\<close>

lemma getProperty_undefined:
  "obj key = None \<Longrightarrow> key \<notin> set objectPrototype \<Longrightarrow> getProperty obj key = Undefined"
  by (simp add: getProperty_def)

lemma getProperty_NODE_ENV:
  "getProperty (process_env w) ''NODE_ENV'' =
     (case process_env w ''NODE_ENV'' of Some v \<Rightarrow> Own v | None \<Rightarrow> Undefined)"
  by (simp add: getProperty_def objectPrototype_def split: option.splits)

lemma levels_dom:
  "levels level = None \<longleftrightarrow>
     level \<notin> {''fatal'', ''error'', ''warning'', ''debug'', ''information''}"
  by (simp add: levels_def)

section \<open>What a logging call does\<close>

text \<open>
  The five public methods differ in the level name only. Each one asks the host for the
  date and for the time of the timestamp under the current locale, then has chalk join
  prefix and message, and prints the result; the first of these steps that throws ends
  the call with the world as it was.
\<close>

lemma invoke_outcome:
  "invoke P now m message date_arg w =
     (case toLocaleDateString P (timestamp date_arg now) (Logger_locale w) of
        Inl e \<Rightarrow> (Inl e, w)
      | Inr localeDate \<Rightarrow>
          (case toLocaleTimeString P (timestamp date_arg now) (Logger_locale w) of
             Inl e \<Rightarrow> (Inl e, w)
           | Inr time \<Rightarrow>
               (case toText message of
                  Inl e \<Rightarrow> (Inl e, w)
                | Inr text \<Rightarrow>
                    (Inr (), w\<lparr>stdout := stdout w @ [spec_line P m localeDate time text]\<rparr>))))"
  by (cases m)
     (simp_all add: fatal_def error_def warning_def debug_def info_def log_def getProperty_def
        levels_def toUpperCase_def toUpperChar_def console_log_def spec_line_def timestamp_def
        split: sum.splits)

lemma invoke_locale: "Logger_locale (snd (invoke P now m message date_arg w)) = Logger_locale w"
  by (simp add: invoke_outcome split: sum.splits)

lemma run_locale: "Logger_locale (run P calls w) = Logger_locale w"
  by (induction P calls w rule: run.induct) (simp_all add: invoke_locale)

lemma log_locale: "Logger_locale (snd (log P now message level_arg date_arg w)) = Logger_locale w"
  by (simp add: log_def console_log_def Let_def split: sum.splits)

lemmas sample_simps =
  samplePlatform_def sampleDate_def sampleTime_def sampleInherited_def pad2_def digit_def
  newYear_def evening_def initial_def setLocale_def spec_line_def timestamp_def quoted_def
  missingKey_def

section \<open>getEnv\<close>

text \<open>A key whose value is a non-empty string is returned, and nothing is logged.\<close>

lemma getEnv_present_nonempty:
  "process_env w env = Some v \<Longrightarrow> v \<noteq> [] \<Longrightarrow> getEnv P now env w = (Inr (Own v), w)"
  by (simp add: getEnv_def getProperty_def)

text \<open>
  C1. The claim: for every key present in the environment with value \<open>v\<close>, \<open>getEnv\<close>
  returns \<open>v\<close> and logs nothing, and the error branch is taken only for an absent key.
  The test \<^verbatim>\<open>!variable\<close> is also true of the empty string. With \<^verbatim>\<open>EMPTY=\<close> in the
  environment (the key is present, its value is the empty string) \<open>getEnv\<close> prints the
  error line that says the key does not exist, and returns \<^verbatim>\<open>undefined\<close> instead of
  the value. The documentation of \<open>getEnv\<close> promises the value unless the variable is
  missing.
\<close>

theorem getEnv_empty_value:
  "getEnv samplePlatform newYear ''EMPTY'' (initial [''EMPTY'' \<mapsto> '''']) =
     (Inr Undefined,
      (initial [''EMPTY'' \<mapsto> ''''])
        \<lparr>stdout := [''[ERROR] (1/1/2025 - 12:00:00 AM): The key '' @ quoted ''EMPTY''
                     @ '' does not exist! Check the '' @ quoted ''*.env''
                     @ '' path or key name and ensure it has the correct spellng.'']\<rparr>)"
  by (simp add: getEnv_def getProperty_def invoke_outcome [where m = Error, simplified]
        sample_simps)

text \<open>
  C2, as amended. The claim: for every key absent from the environment, \<open>getEnv\<close> logs
  exactly one error-level line whose text contains the key, returns \<^verbatim>\<open>undefined\<close> and
  never raises. What holds: for every key that is absent from the environment and is not
  the name of a member of \<^verbatim>\<open>Object.prototype\<close>, when the host formats the current
  time under the current locale, \<open>getEnv\<close> appends exactly one line to the output, the
  error-level line for a message that contains the key, returns \<^verbatim>\<open>undefined\<close> and
  does not throw.
\<close>

theorem getEnv_absent:
  assumes "process_env w env = None" and "env \<notin> set objectPrototype"
    and "toLocaleDateString P now (Logger_locale w) = Inr localeDate"
    and "toLocaleTimeString P now (Logger_locale w) = Inr time"
  shows "getEnv P now env w =
           (Inr Undefined, w\<lparr>stdout := stdout w @ [spec_line P Error localeDate time (missingKey env)]\<rparr>)
         \<and> (\<exists>before after. missingKey env = before @ env @ after)"
proof -
  have "missingKey env = (''The key '' @ [CHR 0x27]) @ env @
          ([CHR 0x27] @ '' does not exist! Check the '' @ quoted ''*.env''
             @ '' path or key name and ensure it has the correct spellng.'')"
    by (simp add: missingKey_def quoted_def)
  then have "\<exists>before after. missingKey env = before @ env @ after"
    by blast
  moreover have "getEnv P now env w =
      (Inr Undefined, w\<lparr>stdout := stdout w @ [spec_line P Error localeDate time (missingKey env)]\<rparr>)"
    using assms
    by (simp add: getEnv_def getProperty_def invoke_outcome [where m = Error, simplified]
          timestamp_def)
  ultimately show ?thesis by simp
qed

text \<open>The example of the specification, \<^verbatim>\<open>get("DOES_NOT_EXIST")\<close>, on the example host.\<close>

theorem getEnv_absent_witness:
  "getEnv samplePlatform newYear ''DOES_NOT_EXIST'' (initial Map.empty) =
     (Inr Undefined,
      (initial Map.empty)
        \<lparr>stdout := [''[ERROR] (1/1/2025 - 12:00:00 AM): The key '' @ quoted ''DOES_NOT_EXIST''
                     @ '' does not exist! Check the '' @ quoted ''*.env''
                     @ '' path or key name and ensure it has the correct spellng.'']\<rparr>)"
  using getEnv_absent [of "initial Map.empty" "''DOES_NOT_EXIST''" samplePlatform newYear
      "''1/1/2025''" "''12:00:00 AM''"]
  by (simp add: objectPrototype_def sample_simps)

text \<open>
  Where the claim as stated fails. The key \<^verbatim>\<open>toString\<close> is absent from an empty
  environment, yet the read finds the inherited member: no line is logged and the member
  is returned. And once the locale is a malformed tag (here the empty one), the error
  line cannot be formatted: the \<^verbatim>\<open>RangeError\<close> of the date formatter leaves \<open>getEnv\<close>.
\<close>

theorem getEnv_absent_counterexample:
  "getEnv samplePlatform newYear ''toString'' (initial Map.empty)
     = (Inr (Inherited ''toString''), initial Map.empty)
   \<and> getEnv samplePlatform newYear ''DOES_NOT_EXIST'' (setLocale '''' (initial Map.empty))
     = (Inl RangeError, setLocale '''' (initial Map.empty))"
  by (simp add: getEnv_def getProperty_def objectPrototype_def
        invoke_outcome [where m = Error, simplified] sample_simps)

section \<open>The public logging methods\<close>

text \<open>
  C3, as amended. The claim: for every message, level and timestamp, the public method
  writes exactly one line \<^verbatim>\<open>[<LEVEL>] (<localized-date> - <localized-time>): <message>\<close>
  in the style of the level, with the message verbatim. What holds: whenever the host
  formats the timestamp under the current locale (date and time) and the message
  converts to a text (a string converts to itself), the method returns normally and
  makes exactly one call of \<^verbatim>\<open>console.log\<close>, with that text in the style of the level;
  nothing else of the world changes.
\<close>

theorem public_method_line:
  assumes "toLocaleDateString P (timestamp date_arg now) (Logger_locale w) = Inr localeDate"
    and "toLocaleTimeString P (timestamp date_arg now) (Logger_locale w) = Inr time"
    and "toText message = Inr text"
  shows "invoke P now m message date_arg w =
           (Inr (), w\<lparr>stdout := stdout w @ [spec_line P m localeDate time text]\<rparr>)"
  using assms by (simp add: invoke_outcome)

text \<open>The German example of \<^verbatim>\<open>logger.ts\<close>.\<close>

theorem public_method_line_witness:
  "error samplePlatform newYear (Text ''Ein Fehler ist aufgetreten!'') (Some evening)
       (setLocale ''de-DE'' (initial Map.empty)) =
     (Inr (), (setLocale ''de-DE'' (initial Map.empty))
        \<lparr>stdout := [''[ERROR] (16.11.2025 - 17:50:22): Ein Fehler ist aufgetreten!'']\<rparr>)"
  using public_method_line [of samplePlatform "Some evening" newYear
      "setLocale ''de-DE'' (initial Map.empty)" "''16.11.2025''" "''17:50:22''"
      "Text ''Ein Fehler ist aufgetreten!''" "''Ein Fehler ist aufgetreten!''" Error]
  by (simp add: sample_simps)

text \<open>
  Where the claim as stated fails: a symbol as message cannot be joined to the prefix,
  and a malformed locale cannot format the timestamp. Either call throws and writes no
  line.
\<close>

theorem public_method_line_counterexample:
  "info samplePlatform newYear (Symbol ''id'') None (initial Map.empty)
     = (Inl TypeError, initial Map.empty)
   \<and> stdout (snd (info samplePlatform newYear (Symbol ''id'') None (initial Map.empty))) = []
   \<and> debug samplePlatform newYear (Text ''x'') None (setLocale '''' (initial Map.empty))
     = (Inl RangeError, setLocale '''' (initial Map.empty))"
  by (simp add: invoke_outcome [where m = Info, simplified]
        invoke_outcome [where m = Debug, simplified] sample_simps)

text \<open>
  C4, as amended. The claim: \<open>log\<close> called with a level outside the five names fails
  fast instead of printing a degraded line. The type \<^verbatim>\<open>LogLevel\<close> excludes such a call
  and \<open>log\<close> has no check of its own; the call fails because the table read yields
  \<^verbatim>\<open>undefined\<close>, which cannot be called, or an inherited member that throws without a
  receiver. What holds: for every level outside the five names other than
  \<^verbatim>\<open>toString\<close>, \<^verbatim>\<open>isPrototypeOf\<close> and \<^verbatim>\<open>constructor\<close>, the call throws and leaves
  the world, the output included, as it was.
\<close>

theorem log_unknown_level:
  assumes "level \<notin> {''fatal'', ''error'', ''warning'', ''debug'', ''information''}"
    and "level \<notin> {''toString'', ''isPrototypeOf'', ''constructor''}"
  shows "\<exists>e. log P now message (Some level) date_arg w = (Inl e, w)"
proof -
  have absent: "levels level = None"
    using assms(1) by (simp add: levels_dom)
  have "call P (getProperty levels level) prefix message = Inl TypeError" for prefix
  proof (cases "level \<in> set objectPrototype")
    case True
    with absent have "getProperty levels level = Inherited level"
      by (simp add: getProperty_def)
    with assms(2) show ?thesis
      by (simp add: returnsWithoutReceiver_def)
  next
    case False
    with absent have "getProperty levels level = Undefined"
      by (rule getProperty_undefined)
    then show ?thesis by simp
  qed
  then show ?thesis
    by (simp add: log_def Let_def split: sum.splits)
qed

text \<open>
  A name that is no property at all, and an inherited member that needs a receiver.
\<close>

theorem log_unknown_level_witness:
  "log samplePlatform newYear (Text ''x'') (Some ''verbose'') None (initial Map.empty)
     = (Inl TypeError, initial Map.empty)
   \<and> log samplePlatform newYear (Text ''x'') (Some ''valueOf'') None (initial Map.empty)
     = (Inl TypeError, initial Map.empty)"
  using log_unknown_level [of "''verbose''" samplePlatform newYear "Text ''x''" None
      "initial Map.empty"]
    log_unknown_level [of "''valueOf''" samplePlatform newYear "Text ''x''" None
      "initial Map.empty"]
  by (auto simp add: objectPrototype_def returnsWithoutReceiver_def log_def getProperty_def
        levels_def sample_simps)

text \<open>
  Where the claim as stated fails: each of the levels \<^verbatim>\<open>toString\<close>,
  \<^verbatim>\<open>isPrototypeOf\<close> and \<^verbatim>\<open>constructor\<close> is outside the five names, the table read finds
  the inherited member, the call of it returns, and a line that is not the line of any
  level is printed: without level, timestamp and message for the first two, without
  style and message for the third.
\<close>

theorem log_unknown_level_counterexample:
  "log samplePlatform newYear (Text ''x'') (Some ''toString'') None (initial Map.empty)
     = (Inr (), (initial Map.empty)\<lparr>stdout := [''[object Undefined]'']\<rparr>)
   \<and> log samplePlatform newYear (Text ''x'') (Some ''isPrototypeOf'') None (initial Map.empty)
     = (Inr (), (initial Map.empty)\<lparr>stdout := [''false'']\<rparr>)
   \<and> log samplePlatform newYear (Text ''x'') (Some ''constructor'') None (initial Map.empty)
     = (Inr (), (initial Map.empty)
          \<lparr>stdout := [''[String: '' @ quoted ''[CONSTRUCTOR] (1/1/2025 - 12:00:00 AM):'' @ '']'']\<rparr>)"
  by (simp add: log_def getProperty_def levels_def objectPrototype_def returnsWithoutReceiver_def
        console_log_def toUpperCase_def toUpperChar_def sample_simps)

text \<open>
  C5, as amended. The claim: for every message, level of the five and timestamp, the
  public logging call completes without throwing. The methods catch nothing, so what
  holds is: the call completes exactly when the host formats the date and the time of
  the timestamp under the current locale and the message converts to a text; the logger
  adds no exception of its own.
\<close>

theorem public_method_completes_iff:
  "fst (invoke P now m message date_arg w) = Inr () \<longleftrightarrow>
     \<not> isl (toLocaleDateString P (timestamp date_arg now) (Logger_locale w))
     \<and> \<not> isl (toLocaleTimeString P (timestamp date_arg now) (Logger_locale w))
     \<and> \<not> isl (toText message)"
  by (simp add: invoke_outcome split: sum.splits)

theorem public_method_completes_iff_witness:
  "fst (fatal samplePlatform newYear (Text ''Critical system failure.'') None
          (initial Map.empty)) = Inr ()"
  using public_method_completes_iff [of samplePlatform newYear Fatal
      "Text ''Critical system failure.''" None "initial Map.empty"]
  by (simp add: sample_simps)

text \<open>
  Where the claim as stated fails: after \<^verbatim>\<open>Logger.setLocale("")\<close> a warning throws the
  formatter's \<^verbatim>\<open>RangeError\<close>, and a symbol as message throws a \<^verbatim>\<open>TypeError\<close>.
\<close>

theorem public_method_completes_counterexample:
  "fst (warning samplePlatform newYear (Text ''Low memory detected.'') None
          (setLocale '''' (initial Map.empty))) = Inl RangeError
   \<and> fst (fatal samplePlatform newYear (Symbol ''id'') (Some evening) (initial Map.empty))
       = Inl TypeError"
  by (simp add: invoke_outcome [where m = Warning, simplified]
        invoke_outcome [where m = Fatal, simplified] sample_simps)

section \<open>The locale\<close>

text \<open>
  C6. After \<open>setLocale L\<close>, and after any sequence of further logging calls, the locale
  is still \<open>L\<close>, and every logging call has the date and the time of its timestamp
  formatted under \<open>L\<close>: its outcome is the one determined by the host's two renderings
  under \<open>L\<close> (the line made of them, or the exception of the formatter). This holds until
  the next \<open>setLocale\<close>, to which the same applies. Setting the same locale twice gives
  the same world as setting it once, hence the same formatting afterwards.
\<close>

theorem setLocale_governs_later_calls:
  "setLocale L (setLocale L w) = setLocale L w
   \<and> Logger_locale (run P calls (setLocale L w)) = L
   \<and> (let w' = run P calls (setLocale L w) in
       invoke P now m message date_arg w' =
         (case toLocaleDateString P (timestamp date_arg now) L of
            Inl e \<Rightarrow> (Inl e, w')
          | Inr localeDate \<Rightarrow>
              (case toLocaleTimeString P (timestamp date_arg now) L of
                 Inl e \<Rightarrow> (Inl e, w')
               | Inr time \<Rightarrow>
                   (case toText message of
                      Inl e \<Rightarrow> (Inl e, w')
                    | Inr text \<Rightarrow>
                        (Inr (), w'\<lparr>stdout := stdout w' @ [spec_line P m localeDate time text]\<rparr>)))))"
proof -
  have "Logger_locale (run P calls (setLocale L w)) = L"
    by (simp add: run_locale setLocale_def)
  then show ?thesis
    by (simp add: invoke_outcome Let_def setLocale_def split: sum.splits)
qed

text \<open>
  The French example of \<^verbatim>\<open>logger.ts\<close>, with the locale set twice and two calls in
  between, of which the second throws.
\<close>

theorem setLocale_governs_later_calls_witness:
  "stdout (snd (info samplePlatform newYear (Text ''Bonjour!'') (Some evening)
     (run samplePlatform [(Debug, Text ''a'', None, newYear), (Fatal, Symbol ''b'', None, newYear)]
        (setLocale ''fr-FR'' (setLocale ''fr-FR'' (initial Map.empty))))))
   = [''[DEBUG] (01/01/2025 - 00:00:00): a'', ''[INFORMATION] (16/11/2025 - 17:50:22): Bonjour!'']"
  using setLocale_governs_later_calls [of "''fr-FR''" "initial Map.empty" samplePlatform
      "[(Debug, Text ''a'', None, newYear), (Fatal, Symbol ''b'', None, newYear)]"
      newYear Info "Text ''Bonjour!''" "Some evening"]
  by (simp add: Let_def invoke_outcome [where m = Debug, simplified]
        invoke_outcome [where m = Fatal, simplified] sample_simps)

section \<open>setOrGetNodeEnv\<close>

text \<open>
  C7. Called without argument while \<^verbatim>\<open>NODE_ENV\<close> has no entry in the environment,
  \<open>setOrGetNodeEnv\<close> returns \<^verbatim>\<open>development\<close>.
\<close>

theorem setOrGetNodeEnv_default:
  "process_env w ''NODE_ENV'' = None \<Longrightarrow> fst (setOrGetNodeEnv None w) = Some ''development''"
  by (simp add: setOrGetNodeEnv_def Let_def)

theorem setOrGetNodeEnv_default_witness:
  "fst (setOrGetNodeEnv None (initial [''EXPRESS_PORT'' \<mapsto> ''3000''])) = Some ''development''"
  using setOrGetNodeEnv_default [of "initial [''EXPRESS_PORT'' \<mapsto> ''3000'']"]
  by (simp add: initial_def)

text \<open>
  C8. For every value \<open>v\<close>, \<open>setOrGetNodeEnv v\<close> returns \<open>v\<close>; a call without argument
  after it returns \<open>v\<close> again and leaves the world as it is; the same call with \<open>v\<close>
  made a second time returns the same value and the same world; and so does a second call
  without argument after a first one.
\<close>

theorem setOrGetNodeEnv_set_then_get:
  "fst (setOrGetNodeEnv (Some v) w) = Some v
   \<and> setOrGetNodeEnv None (snd (setOrGetNodeEnv (Some v) w))
       = (Some v, snd (setOrGetNodeEnv (Some v) w))
   \<and> setOrGetNodeEnv (Some v) (snd (setOrGetNodeEnv (Some v) w)) = setOrGetNodeEnv (Some v) w
   \<and> setOrGetNodeEnv None (snd (setOrGetNodeEnv None w)) = setOrGetNodeEnv None w"
  by (simp add: setOrGetNodeEnv_def Let_def split: option.splits)

text \<open>
  C9. Every call of \<open>setOrGetNodeEnv\<close>, with or without argument, stores the entry
  \<^verbatim>\<open>NODE_ENV\<close>: after the call the entry is defined and is the returned value. A call
  without argument in a world without that entry stores \<^verbatim>\<open>development\<close>, so the world
  after it differs from the world before.
\<close>

theorem setOrGetNodeEnv_writes:
  "process_env (snd (setOrGetNodeEnv nodeEnv w)) ''NODE_ENV'' = fst (setOrGetNodeEnv nodeEnv w)
   \<and> fst (setOrGetNodeEnv nodeEnv w) \<noteq> None
   \<and> (process_env w ''NODE_ENV'' = None \<longrightarrow>
        process_env (snd (setOrGetNodeEnv None w)) ''NODE_ENV'' = Some ''development''
        \<and> snd (setOrGetNodeEnv None w) \<noteq> w)"
proof -
  have "snd (setOrGetNodeEnv None w) \<noteq> w" if "process_env w ''NODE_ENV'' = None"
  proof
    assume "snd (setOrGetNodeEnv None w) = w"
    then have "process_env (snd (setOrGetNodeEnv None w)) ''NODE_ENV'' = process_env w ''NODE_ENV''"
      by simp
    with that show False by (simp add: setOrGetNodeEnv_def Let_def)
  qed
  then show ?thesis
    by (simp add: setOrGetNodeEnv_def Let_def)
qed

theorem setOrGetNodeEnv_writes_witness:
  "process_env (initial Map.empty) ''NODE_ENV'' = None
   \<and> process_env (snd (setOrGetNodeEnv None (initial Map.empty))) ''NODE_ENV''
       = Some ''development''
   \<and> snd (setOrGetNodeEnv None (initial Map.empty)) \<noteq> initial Map.empty"
  using setOrGetNodeEnv_writes [of None "initial Map.empty"]
  by (simp add: initial_def setOrGetNodeEnv_def Let_def)

section \<open>The frame of the locale\<close>

text \<open>
  C10. The locale is \<^verbatim>\<open>en-US\<close> once the module is loaded, and \<open>setLocale\<close> is the only
  operation that changes it: each of the five public logging methods leaves it as it was,
  whether the call returns or throws, and so do \<open>getEnv\<close> and \<open>setOrGetNodeEnv\<close>.
\<close>

theorem locale_frame:
  "Logger_locale (initial e) = ''en-US''
   \<and> Logger_locale (snd (fatal P now message date_arg w)) = Logger_locale w
   \<and> Logger_locale (snd (error P now message date_arg w)) = Logger_locale w
   \<and> Logger_locale (snd (warning P now message date_arg w)) = Logger_locale w
   \<and> Logger_locale (snd (debug P now message date_arg w)) = Logger_locale w
   \<and> Logger_locale (snd (info P now message date_arg w)) = Logger_locale w
   \<and> Logger_locale (snd (getEnv P now env w)) = Logger_locale w
   \<and> Logger_locale (snd (setOrGetNodeEnv nodeEnv w)) = Logger_locale w"
proof -
  have "Logger_locale (snd (getEnv P now env w)) = Logger_locale w"
  proof (cases "error P now (Text (missingKey env)) None w")
    case (Pair r w')
    then have "Logger_locale w' = Logger_locale w"
      using invoke_locale [of P now Error "Text (missingKey env)" None w] by simp
    with Pair show ?thesis
      by (cases r) (simp_all add: getEnv_def Let_def)
  qed
  then show ?thesis
    using invoke_locale [of P now Fatal message date_arg w]
      invoke_locale [of P now Error message date_arg w]
      invoke_locale [of P now Warning message date_arg w]
      invoke_locale [of P now Debug message date_arg w]
      invoke_locale [of P now Info message date_arg w]
    by (simp add: initial_def setOrGetNodeEnv_def Let_def)
qed

end
